theory Spec2Isabelle
  imports Complex_Main "HOL-Library.Char_ord" "HOL-Library.List_Lexorder"
begin

section \<open>Configuration\<close>

text \<open>
  The script \<^verbatim>\<open>ethpredictiontft.py\<close> is a straight-line pipeline: fetch daily price bars,
  derive a day index and a training cut-off, configure two windowed datasets and a model,
  train, predict and print. Python integers are modelled by \<open>int\<close>; the decimal literals
  of the script (\<^verbatim>\<open>1e-3\<close>, \<^verbatim>\<open>0.1\<close>, ...) and the prices by the rational number they
  denote.
\<close>

definition MAX_ENCODER_LENGTH :: int where
  "MAX_ENCODER_LENGTH = 365"

definition MAX_PREDICTION_LENGTH :: int where
  "MAX_PREDICTION_LENGTH = 7"

definition BATCH_SIZE :: int where
  "BATCH_SIZE = 128"

section \<open>Failures\<close>

text \<open>
  Every exception is a value. \<open>KeyError k\<close> and \<open>TypeError\<close> come from subscripting the
  decoded JSON, \<open>JSONDecodeError\<close> from \<^verbatim>\<open>response.json()\<close>, \<open>RequestException\<close> from
  \<^verbatim>\<open>requests.get\<close>, \<open>IndexError\<close> from \<^verbatim>\<open>iloc[-1]\<close> and \<^verbatim>\<open>predicted_prices[0]\<close>,
  \<open>ValueError\<close> from building a frame out of columns of different lengths, and
  \<open>LibraryError\<close> is any exception raised inside the forecasting library (dataset
  construction, training, prediction). \<open>UnmodelledPayload\<close> marks a payload whose shape
  this development does not follow through pandas (see \<open>DataFrame\<close> below).
\<close>

datatype error =
    RequestException
  | JSONDecodeError
  | KeyError string
  | TypeError
  | IndexError
  | ValueError
  | LibraryError
  | UnmodelledPayload

definition and_then :: "error + 'a \<Rightarrow> ('a \<Rightarrow> error + 'b) \<Rightarrow> error + 'b" where
  "and_then r f = (case r of Inl e \<Rightarrow> Inl e | Inr x \<Rightarrow> f x)"

section \<open>Decoded JSON and the HTTP exchange\<close>

datatype json =
    JNull
  | JBool bool
  | JInt int
  | JFloat rat
  | JStr string
  | JArr "json list"
  | JObj "(string \<times> json) list"

text \<open>
  \<^verbatim>\<open>value[key]\<close> with a string key: a dict without the key raises KeyError, anything that
  is not a dict raises TypeError. A JSON object with a repeated key decodes to a dict that
  keeps the last occurrence.
\<close>

definition dict_get :: "(string \<times> json) list \<Rightarrow> string \<Rightarrow> json option" where
  "dict_get kvs k = map_of (rev kvs) k"

fun getitem :: "json \<Rightarrow> string \<Rightarrow> error + json" where
  "getitem (JObj kvs) k = (case dict_get kvs k of None \<Rightarrow> Inl (KeyError k) | Some v \<Rightarrow> Inr v)"
| "getitem _ k = Inl TypeError"

datatype param = PStr string | PInt int

record request =
  url :: string
  params :: "(string \<times> param) list"

text \<open>
  A response carries its status code, which \<open>fetch_data\<close> never reads, and its body:
  \<open>None\<close> when the body is not JSON, so that \<^verbatim>\<open>response.json()\<close> raises.
\<close>

record response =
  status_code :: int
  body :: "json option"

type_synonym network = "request \<Rightarrow> error + response"

definition response_json :: "response \<Rightarrow> error + json" where
  "response_json r = (case body r of None \<Rightarrow> Inl JSONDecodeError | Some j \<Rightarrow> Inr j)"

section \<open>The price table\<close>

text \<open>
  One row of the table. After \<open>DataFrame\<close> the \<open>time\<close> column holds the API's epoch seconds;
  after \<open>to_datetime\<close> it holds pandas timestamps, modelled by their nanoseconds since the
  epoch. The 64-bit range of that representation (years 1677 to 2262) is not modelled:
  timestamps are mathematical integers. The column the script calls \<^verbatim>\<open>open\<close> is \<open>open'\<close>
  here, and \<^verbatim>\<open>group\<close> is \<open>group'\<close>.
\<close>

record bar =
  time :: int
  close :: rat
  open' :: rat
  high :: rat
  low :: rat
  volumeto :: rat

definition frame_columns :: "string list" where
  "frame_columns = [''time'', ''close'', ''open'', ''high'', ''low'', ''volumeto'']"

definition integer_cell :: "json option \<Rightarrow> int option" where
  "integer_cell c = (case c of Some (JInt n) \<Rightarrow> Some n | _ \<Rightarrow> None)"

definition number_cell :: "json option \<Rightarrow> rat option" where
  "number_cell c =
     (case c of Some (JInt n) \<Rightarrow> Some (of_int n) | Some (JFloat q) \<Rightarrow> Some q | _ \<Rightarrow> None)"

text \<open>
  \<^verbatim>\<open>pd.DataFrame(data, columns=cols)\<close> on a list of dicts: each dict gives one row, whose
  cell under a column is the dict's value at that name; keys that are no column are
  dropped. The row is typed here: an integer under the first column and numbers under the
  five others.
\<close>

definition frame_row :: "string list \<Rightarrow> json \<Rightarrow> bar option" where
  "frame_row cols item =
     (case item of
        JObj kvs \<Rightarrow>
          (case map (dict_get kvs) cols of
             [t, c, p, h, l, v] \<Rightarrow>
               (case (integer_cell t, number_cell c, number_cell p, number_cell h,
                      number_cell l, number_cell v) of
                  (Some t', Some c', Some p', Some h', Some l', Some v') \<Rightarrow>
                    Some \<lparr>time = t', close = c', open' = p', high = h', low = l',
                          volumeto = v'\<rparr>
                | _ \<Rightarrow> None)
           | _ \<Rightarrow> None)
      | _ \<Rightarrow> None)"

text \<open>
  The frame is followed for the payload the endpoint documents: an array of objects with
  an integer \<^verbatim>\<open>time\<close> and numeric prices. What pandas makes of any other payload (a
  missing field, a string, a scalar) is outside this development and reported as
  \<open>UnmodelledPayload\<close>; no theorem below rests on that branch.
\<close>

definition DataFrame :: "json \<Rightarrow> string list \<Rightarrow> error + bar list" where
  "DataFrame data cols =
     (case data of
        JArr items \<Rightarrow>
          (case those (map (frame_row cols) items) of
             None \<Rightarrow> Inl UnmodelledPayload
           | Some df \<Rightarrow> Inr df)
      | _ \<Rightarrow> Inl UnmodelledPayload)"

text \<open>\<^verbatim>\<open>pd.to_datetime(s, unit='s')\<close>: the instant \<open>s\<close> seconds after the epoch.\<close>

definition to_datetime :: "int \<Rightarrow> int" where
  "to_datetime s = s * 1000000000"

text \<open>\<^verbatim>\<open>pd.Timedelta(days=d)\<close>, in nanoseconds, and the \<^verbatim>\<open>.days\<close> of a time difference.\<close>

definition Timedelta :: "int \<Rightarrow> int" where
  "Timedelta d = d * 86400000000000"

definition dt_days :: "int \<Rightarrow> int" where
  "dt_days td = td div 86400000000000"

section \<open>fetch\_data\<close>

definition fetch_request :: request where
  "fetch_request =
     \<lparr>url = ''https://min-api.cryptocompare.com/data/v2/histoday'',
      params = [(''fsym'', PStr ''ETH''), (''tsym'', PStr ''USD''), (''limit'', PInt 1729)]\<rparr>"

text \<open>
  The requests issued so far are the state: \<open>fetch_data\<close> appends its one GET and returns
  the table or the exception.
\<close>

definition fetch_data :: "network \<Rightarrow> request list \<Rightarrow> request list \<times> (error + bar list)" where
  "fetch_data net issued =
     (issued @ [fetch_request],
      and_then (net fetch_request) (\<lambda>response.
      and_then (response_json response) (\<lambda>j.
      and_then (getitem j ''Data'') (\<lambda>d.
      and_then (getitem d ''Data'') (\<lambda>data.
      and_then (DataFrame data frame_columns) (\<lambda>df.
      Inr (map (\<lambda>r. r\<lparr>time := to_datetime (time r)\<rparr>) df)))))))"

section \<open>Feature preparation\<close>

text \<open>
  \<^verbatim>\<open>Series.min()\<close> and \<^verbatim>\<open>Series.max()\<close>; on an empty column they give NaT, modelled by
  \<open>None\<close>. Arithmetic with NaT gives NaT and every comparison with NaT is false.
\<close>

definition series_min :: "int list \<Rightarrow> int option" where
  "series_min xs = (case xs of [] \<Rightarrow> None | x # ys \<Rightarrow> Some (fold min ys x))"

definition series_max :: "int list \<Rightarrow> int option" where
  "series_max xs = (case xs of [] \<Rightarrow> None | x # ys \<Rightarrow> Some (fold max ys x))"

definition ts_sub :: "int option \<Rightarrow> int \<Rightarrow> int option" where
  "ts_sub t d = map_option (\<lambda>t'. t' - d) t"

definition ts_add :: "int option \<Rightarrow> int \<Rightarrow> int option" where
  "ts_add t d = map_option (\<lambda>t'. t' + d) t"

definition ts_le :: "int \<Rightarrow> int option \<Rightarrow> bool" where
  "ts_le t c = (case c of None \<Rightarrow> False | Some c' \<Rightarrow> t \<le> c')"

record row = bar +
  time_idx :: "int option"
  group' :: string

text \<open>
  Lines 56 and 57: \<^verbatim>\<open>df['time_idx'] = (df['time'] - df['time'].min()).dt.days\<close> and
  \<^verbatim>\<open>df['group'] = 'eth_usd'\<close>. A cell of \<open>time_idx\<close> is \<open>None\<close> when the difference is NaT.
\<close>

definition prepare :: "bar list \<Rightarrow> row list" where
  "prepare df =
     (let m = series_min (map time df)
      in map (\<lambda>r. \<lparr>time = time r, close = close r, open' = open' r, high = high r,
                    low = low r, volumeto = volumeto r,
                    time_idx = map_option (\<lambda>m'. dt_days (time r - m')) m,
                    group' = ''eth_usd''\<rparr>) df)"

definition training_cutoff :: "row list \<Rightarrow> int option" where
  "training_cutoff df = ts_sub (series_max (map time df)) (Timedelta MAX_PREDICTION_LENGTH)"

section \<open>The windowed datasets\<close>

datatype normalizer = GroupNormalizer "string list"

text \<open>
  The arguments of the dataset constructor, kept as the object the script holds. The
  windowing itself is the library's; \<open>predict_mode\<close> is its \<^verbatim>\<open>predict\<close> argument, false
  unless given.
\<close>

record TimeSeriesDataSet =
  data :: "row list"
  time_idx_name :: string
  target :: string
  group_ids :: "string list"
  min_encoder_length :: int
  max_encoder_length :: int
  min_prediction_length :: int
  max_prediction_length :: int
  static_categoricals :: "string list"
  time_varying_known_reals :: "string list"
  time_varying_unknown_reals :: "string list"
  target_normalizer :: normalizer
  add_relative_time_idx :: bool
  add_target_scales :: bool
  add_encoder_length :: bool
  predict_mode :: bool

definition training :: "row list \<Rightarrow> TimeSeriesDataSet" where
  "training df =
     \<lparr>data = filter (\<lambda>x. ts_le (time x) (training_cutoff df)) df,
      time_idx_name = ''time_idx'',
      target = ''close'',
      group_ids = [''group''],
      min_encoder_length = MAX_ENCODER_LENGTH div 2,
      max_encoder_length = MAX_ENCODER_LENGTH,
      min_prediction_length = 1,
      max_prediction_length = MAX_PREDICTION_LENGTH,
      static_categoricals = [''group''],
      time_varying_known_reals = [],
      time_varying_unknown_reals = [''open'', ''high'', ''low'', ''volumeto'', ''close''],
      target_normalizer = GroupNormalizer [''group''],
      add_relative_time_idx = True,
      add_target_scales = True,
      add_encoder_length = True,
      predict_mode = False\<rparr>"

text \<open>
  \<^verbatim>\<open>TimeSeriesDataSet.from_dataset(dataset, data, predict=..., stop_randomization=...)\<close>:
  the parameters of \<open>dataset\<close> over new data. With \<^verbatim>\<open>predict=True\<close> the minimal
  prediction length becomes the maximal one. The training dataset randomises nothing, so
  \<open>stop_randomization\<close> changes no parameter.
\<close>

definition from_dataset :: "TimeSeriesDataSet \<Rightarrow> row list \<Rightarrow> bool \<Rightarrow> bool \<Rightarrow> TimeSeriesDataSet" where
  "from_dataset dataset df predict stop_randomization =
     dataset\<lparr>data := df,
       min_prediction_length :=
         (if predict then max_prediction_length dataset else min_prediction_length dataset),
       predict_mode := predict\<rparr>"

definition validation :: "row list \<Rightarrow> TimeSeriesDataSet" where
  "validation df = from_dataset (training df) df True True"

text \<open>The rows of the table that the training split leaves out.\<close>

definition held_out :: "row list \<Rightarrow> row list" where
  "held_out df = filter (\<lambda>x. \<not> ts_le (time x) (training_cutoff df)) df"

subsection \<open>The windows of the training dataset\<close>

text \<open>
  Modelled from the spec: the windows a dataset yields. Section 3 of the spec describes the
  windowed dataset as a derived view giving one (encoder, decoder) pair per admissible
  anchor point, with lengths bounded by the length arguments. The code that cuts the
  windows is the dataset class of the forecasting library, which is not under src/: only
  the constructor call of lines 61 to 77 is. The spec does not say what the argument
  \<^verbatim>\<open>min_prediction_length=1\<close> of line 68 does; there the definitions follow the library's
  own construction. The rows of a group are put in order of the time index, which has to
  advance by one from row to row. A sequence starts at every row and runs to the maximal
  length or to the end of the group, and further sequences from the first row of the
  group end at every earlier step. Sequences shorter than
  \<open>min_encoder_length + min_prediction_length\<close> are dropped, and the dataset cannot be
  built when none is left. The decoder of a sequence is its last \<open>max_prediction_length\<close>
  steps, or fewer when the encoder would otherwise be shorter than \<open>min_encoder_length\<close>.
\<close>









section \<open>The model and its training adapter\<close>

datatype metric = QuantileLoss (quantiles: "rat list")

record TemporalFusionTransformer =
  dataset :: TimeSeriesDataSet
  hidden_size :: int
  lstm_layers :: int
  dropout :: rat
  output_size :: int
  loss :: metric
  learning_rate :: rat
  hidden_continuous_size :: int
  attention_head_size :: int
  tft_max_encoder_length :: int
  reduce_on_plateau_patience :: int

definition tft :: "TimeSeriesDataSet \<Rightarrow> TemporalFusionTransformer" where
  "tft training_dataset =
     \<lparr>dataset = training_dataset,
      hidden_size = 256,
      lstm_layers = 2,
      dropout = 3 / 10,
      output_size = 7,
      loss = QuantileLoss [1 / 10, 5 / 10, 9 / 10],
      learning_rate = 1 / 10000,
      hidden_continuous_size = 64,
      attention_head_size = 4,
      tft_max_encoder_length = MAX_ENCODER_LENGTH,
      reduce_on_plateau_patience = 4\<rparr>"

record LightningTFT =
  model :: TemporalFusionTransformer
  module_loss :: metric

definition LightningTFT_init :: "TemporalFusionTransformer \<Rightarrow> LightningTFT" where
  "LightningTFT_init tft_model = \<lparr>model = tft_model, module_loss = loss tft_model\<rparr>"

record AdamW =
  lr :: rat
  weight_decay :: rat

record CosineAnnealingLR =
  scheduled :: AdamW
  T_max :: int

record optimizers =
  optimizer :: AdamW
  lr_scheduler :: CosineAnnealingLR
  monitor :: string

definition configure_optimizers :: "LightningTFT \<Rightarrow> optimizers" where
  "configure_optimizers self =
     (let opt = \<lparr>lr = 1 / 1000, weight_decay = 1 / 100000\<rparr>;
          scheduler = \<lparr>scheduled = opt, T_max = 10\<rparr>
      in \<lparr>optimizer = opt, lr_scheduler = scheduler, monitor = ''val_loss''\<rparr>)"

section \<open>Prediction and report\<close>

text \<open>
  A two-dimensional array: its second dimension and its rows. \<^verbatim>\<open>a[0]\<close> raises IndexError
  on an array without rows.
\<close>

record ndarray =
  shape1 :: nat
  array_rows :: "rat list list"

definition first_row :: "ndarray \<Rightarrow> error + rat list" where
  "first_row a = (case array_rows a of [] \<Rightarrow> Inl IndexError | r # _ \<Rightarrow> Inr r)"

definition last_known_date :: "row list \<Rightarrow> int option" where
  "last_known_date df = series_max (map time df)"

definition future_dates :: "row list \<Rightarrow> ndarray \<Rightarrow> int option list" where
  "future_dates df predicted_prices =
     map (\<lambda>i. ts_add (last_known_date df) (Timedelta (int i + 1)))
       [0 ..< shape1 predicted_prices]"

text \<open>
  \<^verbatim>\<open>pd.DataFrame({'Date': ..., 'Predicted_Price': ...})\<close>: two columns of one length, or
  ValueError.
\<close>

definition prediction_df :: "int option list \<Rightarrow> rat list \<Rightarrow> error + (int option \<times> rat) list" where
  "prediction_df dates prices =
     (if length dates = length prices then Inr (zip dates prices) else Inl ValueError)"

text \<open>\<^verbatim>\<open>df['close'].iloc[-1]\<close>: the close of the last row in table order.\<close>

definition last_known_price :: "row list \<Rightarrow> error + rat" where
  "last_known_price df = (case df of [] \<Rightarrow> Inl IndexError | _ \<Rightarrow> Inr (close (last df)))"

section \<open>The script\<close>

text \<open>
  The forecasting library (dataset windowing, training, prediction) is a parameter: from
  the two datasets, the adapter and the optimisers the adapter configures, it returns the
  array of predicted prices or raises. The script has no \<^verbatim>\<open>try\<close>: the first exception
  ends it.
\<close>

type_synonym library =
  "TimeSeriesDataSet \<Rightarrow> TimeSeriesDataSet \<Rightarrow> LightningTFT \<Rightarrow> optimizers \<Rightarrow> error + ndarray"

record report =
  printed_price :: rat
  printed_table :: "(int option \<times> rat) list"

definition script :: "network \<Rightarrow> library \<Rightarrow> request list \<times> (error + report)" where
  "script net lib =
     (let (issued, fetched) = fetch_data net []
      in (issued,
          and_then fetched (\<lambda>df0.
            let df = prepare df0;
                lightning_tft = LightningTFT_init (tft (training df))
            in and_then (lib (training df) (validation df) lightning_tft
                           (configure_optimizers lightning_tft)) (\<lambda>predicted_prices.
               and_then (first_row predicted_prices) (\<lambda>p0.
               and_then (prediction_df (future_dates df predicted_prices) p0) (\<lambda>table.
               and_then (last_known_price df) (\<lambda>price.
               Inr \<lparr>printed_price = price, printed_table = table\<rparr>)))))))"

section \<open>Auxiliary facts\<close>

lemma series_max_Max: "xs \<noteq> [] \<Longrightarrow> series_max xs = Some (Max (set xs))"
  by (cases xs) (simp_all add: series_max_def Max.set_eq_fold [symmetric] del: set_simps)

lemma series_min_Min: "xs \<noteq> [] \<Longrightarrow> series_min xs = Some (Min (set xs))"
  by (cases xs) (simp_all add: series_min_def Min.set_eq_fold [symmetric] del: set_simps)

lemma sorted_le_last: "sorted xs \<Longrightarrow> y \<in> set xs \<Longrightarrow> y \<le> last xs"
  for xs :: "int list"
  by (induction xs) auto

lemma sorted_last_Max: "sorted xs \<Longrightarrow> xs \<noteq> [] \<Longrightarrow> last xs = Max (set xs)"
  for xs :: "int list"
  by (metis List.finite_set Max_eqI last_in_set sorted_le_last)

lemma sorted_map_mono:
  fixes f :: "'a \<Rightarrow> int" and g :: "int \<Rightarrow> int"
  assumes "sorted (map f xs)" and "\<And>a b. a \<le> b \<Longrightarrow> g a \<le> g b"
  shows "sorted (map (\<lambda>x. g (f x)) xs)"
  using assms by (induction xs) auto

lemma and_then_Inr: "and_then r f = Inr y \<Longrightarrow> \<exists>x. r = Inr x \<and> f x = Inr y"
  by (cases r) (simp_all add: and_then_def)

lemma training_cutoff_Max:
  "df \<noteq> [] \<Longrightarrow> training_cutoff df = Some (Max (time ` set df) - 604800000000000)"
  by (simp add: training_cutoff_def ts_sub_def series_max_Max Timedelta_def
      MAX_PREDICTION_LENGTH_def)

lemma last_known_date_Max:
  "df \<noteq> [] \<Longrightarrow> last_known_date df = Some (Max (time ` set df))"
  using series_max_Max [of "map time df"] by (simp add: last_known_date_def)

lemma last_known_price_last: "df \<noteq> [] \<Longrightarrow> last_known_price df = Inr (close (last df))"
  by (cases df) (simp_all add: last_known_price_def)

lemma prepare_time_idx:
  "map time_idx (prepare df) =
     map (\<lambda>r. Some ((time r - Min (time ` set df)) div 86400000000000)) df"
proof (cases df)
  case Nil
  then show ?thesis by (simp add: prepare_def)
next
  case (Cons a as)
  then have "series_min (map time df) = Some (Min (time ` set df))"
    using series_min_Min [of "map time df"] by simp
  then show ?thesis by (simp add: prepare_def dt_days_def)
qed

lemma prepare_columns:
  "map time (prepare df) = map time df \<and> map close (prepare df) = map close df"
  by (simp add: prepare_def Let_def)

lemma last_prepare: "df0 \<noteq> [] \<Longrightarrow> close (last (prepare df0)) = close (last df0)"
  by (simp add: prepare_def Let_def last_map)

lemma length_future_dates: "length (future_dates df p) = shape1 p"
  by (simp add: future_dates_def)

lemma future_dates_map:
  assumes "df \<noteq> []"
  shows "future_dates df p =
     map (\<lambda>k. Some (Max (time ` set df) + int k * 86400000000000)) [1 ..< Suc (shape1 p)]"
proof -
  have "[1 ..< Suc (shape1 p)] = map Suc [0 ..< shape1 p]"
    by (simp add: map_Suc_upt del: upt_Suc)
  then show ?thesis
    using assms
    by (simp add: future_dates_def last_known_date_Max ts_add_def Timedelta_def
        algebra_simps del: upt_Suc)
qed

lemma strictly_increasing_dates:
  "sorted_wrt (<) (map (\<lambda>k. M + int k * 86400000000000) [1 ..< Suc n])"
  by (simp add: sorted_wrt_map sorted_wrt_iff_nth_less del: upt_Suc)

lemma prediction_df_Inr:
  "prediction_df dates prices = Inr tbl \<Longrightarrow>
     tbl = zip dates prices \<and> length prices = length dates"
  by (auto simp: prediction_df_def split: if_splits)

lemma those_map_Some:
  "list_all2 (\<lambda>x y. f x = Some y) xs ys \<Longrightarrow> those (map f xs) = Some ys"
  by (induction xs ys rule: list_all2_induct) simp_all

lemma frame_row_bar:
  assumes "dict_get kvs ''time'' = Some (JInt (time b))"
    and "number_cell (dict_get kvs ''close'') = Some (close b)"
    and "number_cell (dict_get kvs ''open'') = Some (open' b)"
    and "number_cell (dict_get kvs ''high'') = Some (high b)"
    and "number_cell (dict_get kvs ''low'') = Some (low b)"
    and "number_cell (dict_get kvs ''volumeto'') = Some (volumeto b)"
  shows "frame_row frame_columns (JObj kvs) = Some (b :: bar)"
  using assms by (simp add: frame_row_def frame_columns_def integer_cell_def)

lemma fetch_data_issued: "fst (fetch_data net issued) = issued @ [fetch_request]"
  by (simp add: fetch_data_def)

lemma fetch_data_rows:
  assumes "net fetch_request = Inr resp"
    and "body resp = Some (JObj outer)"
    and "dict_get outer ''Data'' = Some (JObj inner)"
    and "dict_get inner ''Data'' = Some (JArr items)"
    and "list_all2 (\<lambda>item b. \<exists>kvs. item = JObj kvs \<and>
        dict_get kvs ''time'' = Some (JInt (time b)) \<and>
        number_cell (dict_get kvs ''close'') = Some (close b) \<and>
        number_cell (dict_get kvs ''open'') = Some (open' b) \<and>
        number_cell (dict_get kvs ''high'') = Some (high b) \<and>
        number_cell (dict_get kvs ''low'') = Some (low b) \<and>
        number_cell (dict_get kvs ''volumeto'') = Some (volumeto b)) items bs"
  shows "snd (fetch_data net issued) =
           Inr (map (\<lambda>b. b\<lparr>time := time b * 1000000000\<rparr>) (bs :: bar list))"
proof -
  from assms(5) have "list_all2 (\<lambda>item b. frame_row frame_columns item = Some b) items bs"
    by (rule list_all2_mono) (auto intro: frame_row_bar)
  then have "those (map (frame_row frame_columns) items) = Some bs"
    by (rule those_map_Some)
  then have "DataFrame (JArr items) frame_columns = Inr bs"
    by (simp add: DataFrame_def)
  with assms(1-4) show ?thesis
    by (simp add: fetch_data_def and_then_def response_json_def to_datetime_def)
qed

lemma script_fetch_failure:
  assumes "snd (fetch_data net []) = Inl e"
  shows "script net lib = ([fetch_request], Inl e)"
proof -
  obtain i f where ff: "fetch_data net [] = (i, f)"
    by (cases "fetch_data net []")
  have "i = [fetch_request]"
    using fetch_data_issued [of net "[]"] ff by simp
  with assms ff show ?thesis
    by (simp add: script_def and_then_def)
qed

lemma getitem_path_failure:
  assumes "\<not> (\<exists>outer inner v. j = JObj outer \<and> dict_get outer ''Data'' = Some (JObj inner) \<and>
              dict_get inner ''Data'' = Some v)"
  shows "\<exists>e. (e = KeyError ''Data'' \<or> e = TypeError) \<and>
           and_then (getitem j ''Data'') (\<lambda>d. getitem d ''Data'') = Inl e"
proof (cases "getitem j ''Data''")
  case (Inl e)
  then have "e = KeyError ''Data'' \<or> e = TypeError"
    by (cases j) (auto split: option.splits)
  with Inl show ?thesis
    by (auto simp: and_then_def)
next
  case (Inr d)
  then obtain outer where j: "j = JObj outer" and d: "dict_get outer ''Data'' = Some d"
    by (cases j) (auto split: option.splits)
  show ?thesis
  proof (cases "getitem d ''Data''")
    case (Inl e)
    then have "e = KeyError ''Data'' \<or> e = TypeError"
      by (cases d) (auto split: option.splits)
    with Inl Inr show ?thesis
      by (auto simp: and_then_def)
  next
    case (Inr v)
    then obtain inner where "d = JObj inner" and "dict_get inner ''Data'' = Some v"
      by (cases d) (auto split: option.splits)
    with j d assms show ?thesis
      by blast
  qed
qed

text \<open>What a run of the script that ends normally has gone through.\<close>

lemma script_report:
  assumes "script net lib = (issued, Inr rep)"
  shows "\<exists>df0 pp p0. snd (fetch_data net []) = Inr df0 \<and> df0 \<noteq> [] \<and>
           lib (training (prepare df0)) (validation (prepare df0))
             (LightningTFT_init (tft (training (prepare df0))))
             (configure_optimizers (LightningTFT_init (tft (training (prepare df0))))) = Inr pp \<and>
           first_row pp = Inr p0 \<and> length p0 = shape1 pp \<and>
           printed_table rep = zip (future_dates (prepare df0) pp) p0 \<and>
           printed_price rep = close (last df0)"
proof -
  obtain i f where ff: "fetch_data net [] = (i, f)"
    by (cases "fetch_data net []")
  with assms have "and_then f (\<lambda>df0.
            let df = prepare df0;
                lightning_tft = LightningTFT_init (tft (training df))
            in and_then (lib (training df) (validation df) lightning_tft
                           (configure_optimizers lightning_tft)) (\<lambda>predicted_prices.
               and_then (first_row predicted_prices) (\<lambda>p0.
               and_then (prediction_df (future_dates df predicted_prices) p0) (\<lambda>table.
               and_then (last_known_price df) (\<lambda>price.
               Inr \<lparr>printed_price = price, printed_table = table\<rparr>))))) = Inr rep"
    by (simp add: script_def)
  then obtain df0 where f: "f = Inr df0" and
    r: "and_then (lib (training (prepare df0)) (validation (prepare df0))
             (LightningTFT_init (tft (training (prepare df0))))
             (configure_optimizers (LightningTFT_init (tft (training (prepare df0))))))
          (\<lambda>predicted_prices.
               and_then (first_row predicted_prices) (\<lambda>p0.
               and_then (prediction_df (future_dates (prepare df0) predicted_prices) p0) (\<lambda>table.
               and_then (last_known_price (prepare df0)) (\<lambda>price.
               Inr \<lparr>printed_price = price, printed_table = table\<rparr>)))) = Inr rep"
    unfolding Let_def by (blast dest: and_then_Inr)
  from r obtain pp where
    l: "lib (training (prepare df0)) (validation (prepare df0))
             (LightningTFT_init (tft (training (prepare df0))))
             (configure_optimizers (LightningTFT_init (tft (training (prepare df0))))) = Inr pp" and
    r1: "and_then (first_row pp) (\<lambda>p0.
           and_then (prediction_df (future_dates (prepare df0) pp) p0) (\<lambda>table.
           and_then (last_known_price (prepare df0)) (\<lambda>price.
           Inr \<lparr>printed_price = price, printed_table = table\<rparr>))) = Inr rep"
    by (blast dest: and_then_Inr)
  from r1 obtain p0 where
    fr: "first_row pp = Inr p0" and
    r2: "and_then (prediction_df (future_dates (prepare df0) pp) p0) (\<lambda>table.
           and_then (last_known_price (prepare df0)) (\<lambda>price.
           Inr \<lparr>printed_price = price, printed_table = table\<rparr>)) = Inr rep"
    by (blast dest: and_then_Inr)
  from r2 obtain tbl where
    pd: "prediction_df (future_dates (prepare df0) pp) p0 = Inr tbl" and
    r3: "and_then (last_known_price (prepare df0)) (\<lambda>price.
           Inr \<lparr>printed_price = price, printed_table = tbl\<rparr>) = Inr rep"
    by (blast dest: and_then_Inr)
  from r3 obtain price where
    p: "last_known_price (prepare df0) = Inr price" and
    rep: "rep = \<lparr>printed_price = price, printed_table = tbl\<rparr>"
    by (auto dest: and_then_Inr)
  from p have ne: "df0 \<noteq> []"
    by (auto simp: last_known_price_def prepare_def)
  then have "prepare df0 \<noteq> []"
    by (simp add: prepare_def)
  with p have pr: "price = close (last (prepare df0))"
    by (simp add: last_known_price_last)
  from pd have tb: "tbl = zip (future_dates (prepare df0) pp) p0" and
    len: "length p0 = shape1 pp"
    using prediction_df_Inr [OF pd] by (simp_all add: length_future_dates)
  from ff f have "snd (fetch_data net []) = Inr df0"
    by simp
  with ne l fr len tb pr rep show ?thesis
    by (auto simp: last_prepare)
qed

text \<open>The fetched table against the array the endpoint answered with.\<close>

lemma Max_to_datetime:
  assumes "bs \<noteq> []"
  shows "Max (time ` set (map (\<lambda>b. b\<lparr>time := time b * 1000000000\<rparr>) bs)) =
           Max (time ` set bs) * 1000000000"
proof -
  have "mono (\<lambda>t :: int. t * 1000000000)"
    by (simp add: mono_def)
  then have "Max (time ` set bs) * 1000000000 = Max ((\<lambda>t. t * 1000000000) ` time ` set bs)"
    using assms by (intro mono_Max_commute) simp_all
  moreover have "time ` set (map (\<lambda>b. b\<lparr>time := time b * 1000000000\<rparr>) bs) =
      (\<lambda>t. t * 1000000000) ` time ` set bs"
    by (simp add: image_image)
  ultimately show ?thesis
    by simp
qed

lemma fetched_last_known:
  fixes bs :: "bar list"
  assumes "bs \<noteq> []"
  shows "last_known_price (prepare (map (\<lambda>b. b\<lparr>time := time b * 1000000000\<rparr>) bs)) =
           Inr (close (last bs)) \<and>
         last_known_date (prepare (map (\<lambda>b. b\<lparr>time := time b * 1000000000\<rparr>) bs)) =
           Some (Max (time ` set bs) * 1000000000) \<and>
         time (last (prepare (map (\<lambda>b. b\<lparr>time := time b * 1000000000\<rparr>) bs))) =
           time (last bs) * 1000000000"
proof -
  let ?f = "map (\<lambda>b. b\<lparr>time := time b * 1000000000\<rparr>) bs"
  from assms have ne: "?f \<noteq> []" and pne: "prepare ?f \<noteq> []"
    by (simp_all add: prepare_def)
  have "last_known_price (prepare ?f) = Inr (close (last (prepare ?f)))"
    using pne by (rule last_known_price_last)
  also have "close (last (prepare ?f)) = close (last ?f)"
    using ne by (rule last_prepare)
  also have "\<dots> = close (last bs)"
    using assms by (simp add: last_map)
  finally have p: "last_known_price (prepare ?f) = Inr (close (last bs))" .
  have "time ` set (prepare ?f) = time ` set ?f"
    using prepare_columns [of ?f] by (metis list.set_map)
  then have "Max (time ` set (prepare ?f)) = Max (time ` set ?f)"
    by (simp only:)
  also have "\<dots> = Max (time ` set bs) * 1000000000"
    using assms by (rule Max_to_datetime)
  finally have "Max (time ` set (prepare ?f)) = Max (time ` set bs) * 1000000000" .
  moreover have "last_known_date (prepare ?f) = Some (Max (time ` set (prepare ?f)))"
    using pne by (rule last_known_date_Max)
  ultimately have d: "last_known_date (prepare ?f) = Some (Max (time ` set bs) * 1000000000)"
    by (simp only:)
  have "time (last (prepare ?f)) = last (map time (prepare ?f))"
    using pne by (simp add: last_map)
  also have "\<dots> = last (map time ?f)"
    by (simp add: prepare_columns)
  also have "\<dots> = time (last bs) * 1000000000"
    using assms by (simp add: last_map)
  finally show ?thesis
    using p d by blast
qed

subsection \<open>Facts about the windows of the training dataset\<close>






















section \<open>The training split\<close>

text \<open>
  Claim C1. For every table with at least one row, \<open>training_cutoff\<close> is the largest
  timestamp of the table minus seven days; the rows handed to the training dataset are
  exactly the rows with \<open>time \<le> training_cutoff\<close>, in table order; the rows left out are
  exactly those after the cut-off, so that every row is on one side and none on both; and
  the validation dataset is built over all rows of the table.
\<close>

theorem training_split_at_cutoff:
  assumes "df \<noteq> []"
  shows "training_cutoff df = Some (Max (time ` set df) - 7 * 86400000000000) \<and>
         data (training df) =
           filter (\<lambda>x. time x \<le> Max (time ` set df) - 7 * 86400000000000) df \<and>
         held_out df =
           filter (\<lambda>x. Max (time ` set df) - 7 * 86400000000000 < time x) df \<and>
         set (data (training df)) \<union> set (held_out df) = set df \<and>
         set (data (training df)) \<inter> set (held_out df) = {} \<and>
         length (data (training df)) + length (held_out df) = length df \<and>
         data (validation df) = df"
proof -
  let ?c = "Max (time ` set df) - 7 * 86400000000000"
  have c: "training_cutoff df = Some ?c"
    using assms by (simp add: training_cutoff_Max)
  have t: "data (training df) = filter (\<lambda>x. time x \<le> ?c) df"
    by (simp add: training_def c ts_le_def)
  have h: "held_out df = filter (\<lambda>x. ?c < time x) df"
    by (simp add: held_out_def c ts_le_def not_le)
  have u: "set (data (training df)) \<union> set (held_out df) = set df"
    unfolding t h by auto
  have i: "set (data (training df)) \<inter> set (held_out df) = {}"
    unfolding t h by auto
  have l: "length (data (training df)) + length (held_out df) = length df"
    unfolding t h using sum_length_filter_compl [of "\<lambda>x. time x \<le> ?c" df]
    by (simp add: not_le)
  have v: "data (validation df) = df"
    by (simp add: validation_def from_dataset_def)
  from c t h u i l v show ?thesis by blast
qed

text \<open>
  A table of three days (day 0, day 2, day 8): the cut-off is day 1, the first row is the
  training split and the two others are held out.
\<close>

theorem training_split_at_cutoff_witness:
  "[\<lparr>time = 0, close = 10, open' = 9, high = 11, low = 8, volumeto = 5,
      time_idx = Some 0, group' = ''eth_usd''\<rparr>,
    \<lparr>time = 172800000000000, close = 12, open' = 10, high = 13, low = 9, volumeto = 6,
      time_idx = Some 2, group' = ''eth_usd''\<rparr>,
    \<lparr>time = 691200000000000, close = 14, open' = 12, high = 15, low = 11, volumeto = 7,
      time_idx = Some 8, group' = ''eth_usd''\<rparr>] \<noteq> [] \<and>
   training_cutoff
     [\<lparr>time = 0, close = 10, open' = 9, high = 11, low = 8, volumeto = 5,
      time_idx = Some 0, group' = ''eth_usd''\<rparr>,
    \<lparr>time = 172800000000000, close = 12, open' = 10, high = 13, low = 9, volumeto = 6,
      time_idx = Some 2, group' = ''eth_usd''\<rparr>,
    \<lparr>time = 691200000000000, close = 14, open' = 12, high = 15, low = 11, volumeto = 7,
      time_idx = Some 8, group' = ''eth_usd''\<rparr>] = Some 86400000000000 \<and>
   data (training
     [\<lparr>time = 0, close = 10, open' = 9, high = 11, low = 8, volumeto = 5,
      time_idx = Some 0, group' = ''eth_usd''\<rparr>,
    \<lparr>time = 172800000000000, close = 12, open' = 10, high = 13, low = 9, volumeto = 6,
      time_idx = Some 2, group' = ''eth_usd''\<rparr>,
    \<lparr>time = 691200000000000, close = 14, open' = 12, high = 15, low = 11, volumeto = 7,
      time_idx = Some 8, group' = ''eth_usd''\<rparr>]) =
     [\<lparr>time = 0, close = 10, open' = 9, high = 11, low = 8, volumeto = 5,
      time_idx = Some 0, group' = ''eth_usd''\<rparr>] \<and>
   held_out
     [\<lparr>time = 0, close = 10, open' = 9, high = 11, low = 8, volumeto = 5,
      time_idx = Some 0, group' = ''eth_usd''\<rparr>,
    \<lparr>time = 172800000000000, close = 12, open' = 10, high = 13, low = 9, volumeto = 6,
      time_idx = Some 2, group' = ''eth_usd''\<rparr>,
    \<lparr>time = 691200000000000, close = 14, open' = 12, high = 15, low = 11, volumeto = 7,
      time_idx = Some 8, group' = ''eth_usd''\<rparr>] =
     [\<lparr>time = 172800000000000, close = 12, open' = 10, high = 13, low = 9, volumeto = 6,
      time_idx = Some 2, group' = ''eth_usd''\<rparr>,
      \<lparr>time = 691200000000000, close = 14, open' = 12, high = 15, low = 11, volumeto = 7,
      time_idx = Some 8, group' = ''eth_usd''\<rparr>]"
  using training_split_at_cutoff [of
    "[\<lparr>time = 0, close = 10, open' = 9, high = 11, low = 8, volumeto = 5,
      time_idx = Some 0, group' = ''eth_usd''\<rparr>,
    \<lparr>time = 172800000000000, close = 12, open' = 10, high = 13, low = 9, volumeto = 6,
      time_idx = Some 2, group' = ''eth_usd''\<rparr>,
    \<lparr>time = 691200000000000, close = 14, open' = 12, high = 15, low = 11, volumeto = 7,
      time_idx = Some 8, group' = ''eth_usd''\<rparr>]"]
  by simp

section \<open>The day index\<close>

text \<open>
  Claim C2, as amended. For any table, the \<open>time_idx\<close> column is, row by row, the whole
  number of days (rounded down) between the row's timestamp and the smallest timestamp of
  the table; it is an integer and never negative. It is non-decreasing along the rows when
  the rows are in non-decreasing order of time; the script does not sort the table, and on
  a table in another order the index goes down.
\<close>

theorem time_idx_days_since_min:
  "map time_idx (prepare df) =
     map (\<lambda>r. Some ((time r - Min (time ` set df)) div 86400000000000)) df \<and>
   (\<forall>r \<in> set df. 0 \<le> (time r - Min (time ` set df)) div 86400000000000) \<and>
   (sorted (map time df) \<longrightarrow>
      sorted (map (\<lambda>r. (time r - Min (time ` set df)) div 86400000000000) df))"
proof (intro conjI ballI impI)
  show "map time_idx (prepare df) =
     map (\<lambda>r. Some ((time r - Min (time ` set df)) div 86400000000000)) df"
    by (rule prepare_time_idx)
next
  fix r assume "r \<in> set df"
  then have "Min (time ` set df) \<le> time r" by simp
  then show "0 \<le> (time r - Min (time ` set df)) div 86400000000000"
    by (simp add: pos_imp_zdiv_nonneg_iff)
next
  assume s: "sorted (map time df)"
  have mono: "\<And>a b :: int. a \<le> b \<Longrightarrow>
      (a - Min (time ` set df)) div 86400000000000 \<le>
      (b - Min (time ` set df)) div 86400000000000"
    by (rule zdiv_mono1) simp_all
  from s mono show "sorted (map (\<lambda>r. (time r - Min (time ` set df)) div 86400000000000) df)"
    by (rule sorted_map_mono)
qed

text \<open>Three rows at day 0, day 1.5 and day 8, in that order: the index is 0, 1, 8.\<close>

theorem time_idx_days_since_min_witness:
  "map time_idx (prepare
     [\<lparr>time = 0, close = 10, open' = 9, high = 11, low = 8, volumeto = 5\<rparr>,
      \<lparr>time = 129600000000000, close = 12, open' = 10, high = 13, low = 9, volumeto = 6\<rparr>,
      \<lparr>time = 691200000000000, close = 14, open' = 12, high = 15, low = 11, volumeto = 7\<rparr>])
     = [Some 0, Some 1, Some 8] \<and>
   sorted [0, 129600000000000, 691200000000000 :: int] \<and>
   sorted [0, 1, 8 :: int]"
  using time_idx_days_since_min [of
     "[\<lparr>time = 0, close = 10, open' = 9, high = 11, low = 8, volumeto = 5\<rparr>,
      \<lparr>time = 129600000000000, close = 12, open' = 10, high = 13, low = 9, volumeto = 6\<rparr>,
      \<lparr>time = 691200000000000, close = 14, open' = 12, high = 15, low = 11, volumeto = 7\<rparr>]"]
  by simp

text \<open>
  The claim as the specification states it, for any fetched table, fails when the endpoint
  answers with the later day first: the table keeps that order and the index is 1, then 0.
\<close>

theorem time_idx_unsorted_counterexample:
  "snd (fetch_data
     (\<lambda>request. Inr \<lparr>status_code = 200, body = Some (JObj [(''Data'', JObj [(''Data'',
        JArr [JObj [(''time'', JInt 86400), (''close'', JFloat 12), (''open'', JFloat 10),
              (''high'', JFloat 13), (''low'', JFloat 9), (''volumeto'', JFloat 6)],
              JObj [(''time'', JInt 0), (''close'', JFloat 10), (''open'', JFloat 9),
              (''high'', JFloat 11), (''low'', JFloat 8), (''volumeto'', JFloat 5)]])])])\<rparr>)
     []) =
   Inr [\<lparr>time = 86400000000000, close = 12, open' = 10, high = 13, low = 9, volumeto = 6\<rparr>,
        \<lparr>time = 0, close = 10, open' = 9, high = 11, low = 8, volumeto = 5\<rparr>] \<and>
   map time_idx (prepare
       [\<lparr>time = 86400000000000, close = 12, open' = 10, high = 13, low = 9, volumeto = 6\<rparr>,
        \<lparr>time = 0, close = 10, open' = 9, high = 11, low = 8, volumeto = 5\<rparr>]) =
     [Some 1, Some 0]"
  by (simp add: fetch_data_def and_then_def fetch_request_def response_json_def dict_get_def
      DataFrame_def frame_row_def frame_columns_def integer_cell_def number_cell_def
      to_datetime_def prepare_def series_min_def dt_days_def)

section \<open>The future dates\<close>

text \<open>
  Claim C3. For a table with at least one row, \<open>last_known_date\<close> is the largest timestamp
  of the table and the reconstructed dates are that date plus 1 day, plus 2 days, and so on,
  one for each column of the prediction array: as many dates as forecast days, strictly
  increasing, without repetition. With the seven columns of the seven-day horizon they are
  exactly the dates 1 to 7 days after the last known date. In a run of the script that ends
  normally these dates are the first column of the printed table.
\<close>

theorem future_dates_consecutive:
  assumes "df \<noteq> []"
  shows "last_known_date df = Some (Max (time ` set df)) \<and>
     future_dates df p =
       map (\<lambda>k. Some (Max (time ` set df) + int k * 86400000000000)) [1 ..< Suc (shape1 p)] \<and>
     length (future_dates df p) = shape1 p \<and>
     distinct (future_dates df p) \<and>
     sorted_wrt (<) (map (\<lambda>k. Max (time ` set df) + int k * 86400000000000)
       [1 ..< Suc (shape1 p)]) \<and>
     (shape1 p = nat MAX_PREDICTION_LENGTH \<longrightarrow>
        future_dates df p =
          [Some (Max (time ` set df) + 1 * 86400000000000),
           Some (Max (time ` set df) + 2 * 86400000000000),
           Some (Max (time ` set df) + 3 * 86400000000000),
           Some (Max (time ` set df) + 4 * 86400000000000),
           Some (Max (time ` set df) + 5 * 86400000000000),
           Some (Max (time ` set df) + 6 * 86400000000000),
           Some (Max (time ` set df) + 7 * 86400000000000)]) \<and>
     (script net lib = (issued, Inr rep) \<longrightarrow>
        (\<exists>df0 pp. snd (fetch_data net []) = Inr df0 \<and>
           map fst (printed_table rep) = future_dates (prepare df0) pp \<and>
           length (printed_table rep) = shape1 pp))"
proof -
  let ?M = "Max (time ` set df)"
  let ?f = "\<lambda>k. Some (?M + int k * 86400000000000)"
  have m: "future_dates df p = map ?f [1 ..< Suc (shape1 p)]"
    using assms by (rule future_dates_map)
  have l: "length (future_dates df p) = shape1 p"
    by (rule length_future_dates)
  have "inj ?f"
    by (simp add: inj_on_def)
  then have d: "distinct (future_dates df p)"
    unfolding m by (simp add: distinct_map inj_on_def del: upt_Suc)
  have s: "shape1 p = nat MAX_PREDICTION_LENGTH \<longrightarrow> future_dates df p =
          [Some (Max (time ` set df) + 1 * 86400000000000),
           Some (Max (time ` set df) + 2 * 86400000000000),
           Some (Max (time ` set df) + 3 * 86400000000000),
           Some (Max (time ` set df) + 4 * 86400000000000),
           Some (Max (time ` set df) + 5 * 86400000000000),
           Some (Max (time ` set df) + 6 * 86400000000000),
           Some (Max (time ` set df) + 7 * 86400000000000)]"
  proof
    assume "shape1 p = nat MAX_PREDICTION_LENGTH"
    then have "shape1 p = 7" by (simp add: MAX_PREDICTION_LENGTH_def)
    then have "[1 ..< Suc (shape1 p)] = [1, 2, 3, 4, 5, 6, 7]"
      by (simp add: upt_rec)
    then show "future_dates df p =
          [Some (Max (time ` set df) + 1 * 86400000000000),
           Some (Max (time ` set df) + 2 * 86400000000000),
           Some (Max (time ` set df) + 3 * 86400000000000),
           Some (Max (time ` set df) + 4 * 86400000000000),
           Some (Max (time ` set df) + 5 * 86400000000000),
           Some (Max (time ` set df) + 6 * 86400000000000),
           Some (Max (time ` set df) + 7 * 86400000000000)]"
      unfolding m by simp
  qed
  have sc: "script net lib = (issued, Inr rep) \<longrightarrow>
        (\<exists>df0 pp. snd (fetch_data net []) = Inr df0 \<and>
           map fst (printed_table rep) = future_dates (prepare df0) pp \<and>
           length (printed_table rep) = shape1 pp)"
  proof
    assume "script net lib = (issued, Inr rep)"
    then obtain df0 pp p0 where "snd (fetch_data net []) = Inr df0"
      and "length p0 = shape1 pp"
      and "printed_table rep = zip (future_dates (prepare df0) pp) p0"
      using script_report by blast
    then have "snd (fetch_data net []) = Inr df0 \<and>
           map fst (printed_table rep) = future_dates (prepare df0) pp \<and>
           length (printed_table rep) = shape1 pp"
      by (simp add: length_future_dates)
    then show "\<exists>df0 pp. snd (fetch_data net []) = Inr df0 \<and>
           map fst (printed_table rep) = future_dates (prepare df0) pp \<and>
           length (printed_table rep) = shape1 pp"
      by blast
  qed
  from last_known_date_Max [OF assms] m l d s sc
    strictly_increasing_dates [of ?M "shape1 p"]
  show ?thesis
    by blast
qed

text \<open>
  A table whose last day is day 1 and a forecast of seven columns: the dates are day 2 to
  day 8, and the script prints them beside the forecast.
\<close>

theorem future_dates_consecutive_witness:
  "[\<lparr>time = 0, close = 10, open' = 9, high = 11, low = 8, volumeto = 5,
      time_idx = Some 0, group' = ''eth_usd''\<rparr>,
    \<lparr>time = 86400000000000, close = 12, open' = 10, high = 13, low = 9, volumeto = 6,
      time_idx = Some 1, group' = ''eth_usd''\<rparr>] \<noteq> [] \<and>
   shape1 \<lparr>shape1 = 7, array_rows = [[13, 14, 15, 16, 17, 18, 19]]\<rparr> =
     nat MAX_PREDICTION_LENGTH \<and>
   future_dates
     [\<lparr>time = 0, close = 10, open' = 9, high = 11, low = 8, volumeto = 5,
      time_idx = Some 0, group' = ''eth_usd''\<rparr>,
    \<lparr>time = 86400000000000, close = 12, open' = 10, high = 13, low = 9, volumeto = 6,
      time_idx = Some 1, group' = ''eth_usd''\<rparr>]
     \<lparr>shape1 = 7, array_rows = [[13, 14, 15, 16, 17, 18, 19]]\<rparr> =
     [Some 172800000000000, Some 259200000000000, Some 345600000000000,
      Some 432000000000000, Some 518400000000000, Some 604800000000000,
      Some 691200000000000] \<and>
   script
     (\<lambda>request. Inr \<lparr>status_code = 200, body = Some (JObj [(''Data'', JObj [(''Data'',
        JArr [JObj [(''time'', JInt 0), (''close'', JFloat 10), (''open'', JFloat 9),
              (''high'', JFloat 11), (''low'', JFloat 8), (''volumeto'', JFloat 5)],
              JObj [(''time'', JInt 86400), (''close'', JFloat 12), (''open'', JFloat 10),
              (''high'', JFloat 13), (''low'', JFloat 9), (''volumeto'', JFloat 6)]])])])\<rparr>)
     (\<lambda>t v m c. Inr \<lparr>shape1 = 7, array_rows = [[13, 14, 15, 16, 17, 18, 19]]\<rparr>) =
   ([fetch_request],
    Inr \<lparr>printed_price = 12,
         printed_table =
           [(Some 172800000000000, 13), (Some 259200000000000, 14),
            (Some 345600000000000, 15), (Some 432000000000000, 16),
            (Some 518400000000000, 17), (Some 604800000000000, 18),
            (Some 691200000000000, 19)]\<rparr>)"
proof -
  let ?df = "[\<lparr>time = 0, close = 10, open' = 9, high = 11, low = 8, volumeto = 5,
      time_idx = Some 0, group' = ''eth_usd''\<rparr>,
    \<lparr>time = 86400000000000, close = 12, open' = 10, high = 13, low = 9, volumeto = 6,
      time_idx = Some 1, group' = ''eth_usd''\<rparr>]"
  let ?p = "\<lparr>shape1 = 7, array_rows = [[13, 14, 15, 16, 17, 18, 19 :: rat]]\<rparr>"
  have ne: "?df \<noteq> []"
    by simp
  have n: "shape1 ?p = nat MAX_PREDICTION_LENGTH"
    by (simp add: MAX_PREDICTION_LENGTH_def)
  have run: "script
     (\<lambda>request. Inr \<lparr>status_code = 200, body = Some (JObj [(''Data'', JObj [(''Data'',
        JArr [JObj [(''time'', JInt 0), (''close'', JFloat 10), (''open'', JFloat 9),
              (''high'', JFloat 11), (''low'', JFloat 8), (''volumeto'', JFloat 5)],
              JObj [(''time'', JInt 86400), (''close'', JFloat 12), (''open'', JFloat 10),
              (''high'', JFloat 13), (''low'', JFloat 9), (''volumeto'', JFloat 6)]])])])\<rparr>)
     (\<lambda>t v m c. Inr \<lparr>shape1 = 7, array_rows = [[13, 14, 15, 16, 17, 18, 19]]\<rparr>) =
   ([fetch_request],
    Inr \<lparr>printed_price = 12,
         printed_table =
           [(Some 172800000000000, 13), (Some 259200000000000, 14),
            (Some 345600000000000, 15), (Some 432000000000000, 16),
            (Some 518400000000000, 17), (Some 604800000000000, 18),
            (Some 691200000000000, 19)]\<rparr>)"
    by (simp add: script_def fetch_data_def and_then_def response_json_def dict_get_def
      DataFrame_def frame_row_def frame_columns_def integer_cell_def number_cell_def
      to_datetime_def prepare_def series_min_def dt_days_def first_row_def prediction_df_def
      future_dates_def last_known_date_def series_max_def ts_add_def Timedelta_def
      last_known_price_def Let_def upt_rec)
  note future_dates_consecutive [OF ne, of ?p, THEN conjunct2, THEN conjunct2,
      THEN conjunct2, THEN conjunct2, THEN conjunct2, THEN conjunct1, THEN mp, OF n]
  then have "future_dates ?df ?p =
     [Some 172800000000000, Some 259200000000000, Some 345600000000000,
      Some 432000000000000, Some 518400000000000, Some 604800000000000,
      Some 691200000000000]"
    by simp
  with ne n run show ?thesis
    by simp
qed

section \<open>The optimiser of the training adapter\<close>

text \<open>
  Claim C4. \<open>configure_optimizers\<close> of the adapter returns, whatever model the adapter
  wraps, an AdamW optimiser with learning rate 1e-3 and weight decay 1e-5, a cosine
  annealing schedule over that optimiser with \<open>T_max = 10\<close>, and the monitor
  \<open>val_loss\<close>. The model the script wraps is configured with \<open>learning_rate\<close> 1e-4, which
  the adapter does not read: the optimiser of the training run has learning rate 1e-3,
  and these optimisers are what the script hands to the training run.
\<close>

theorem configure_optimizers_fixed:
  "configure_optimizers (LightningTFT_init tft_model) =
     \<lparr>optimizer = \<lparr>lr = 1 / 1000, weight_decay = 1 / 100000\<rparr>,
      lr_scheduler = \<lparr>scheduled = \<lparr>lr = 1 / 1000, weight_decay = 1 / 100000\<rparr>, T_max = 10\<rparr>,
      monitor = ''val_loss''\<rparr> \<and>
   learning_rate (model (LightningTFT_init (tft ds))) = 1 / 10000 \<and>
   lr (optimizer (configure_optimizers (LightningTFT_init (tft ds)))) = 1 / 1000 \<and>
   lr (optimizer (configure_optimizers (LightningTFT_init (tft ds)))) \<noteq>
     learning_rate (model (LightningTFT_init (tft ds))) \<and>
   script net lib =
     script net (\<lambda>t v m c. lib t v m
       \<lparr>optimizer = \<lparr>lr = 1 / 1000, weight_decay = 1 / 100000\<rparr>,
      lr_scheduler = \<lparr>scheduled = \<lparr>lr = 1 / 1000, weight_decay = 1 / 100000\<rparr>, T_max = 10\<rparr>,
      monitor = ''val_loss''\<rparr>)"
proof -
  have "script net lib =
     script net (\<lambda>t v m c. lib t v m
       \<lparr>optimizer = \<lparr>lr = 1 / 1000, weight_decay = 1 / 100000\<rparr>,
      lr_scheduler = \<lparr>scheduled = \<lparr>lr = 1 / 1000, weight_decay = 1 / 100000\<rparr>, T_max = 10\<rparr>,
      monitor = ''val_loss''\<rparr>)"
    by (simp add: script_def configure_optimizers_def Let_def)
  then show ?thesis
    by (simp add: configure_optimizers_def LightningTFT_init_def tft_def Let_def)
qed

section \<open>The window lengths of the training dataset\<close>




section \<open>fetch\_data on a well-formed answer\<close>

text \<open>
  Claim C6, as amended. \<open>fetch_data\<close> issues exactly one GET, to the histoday endpoint with
  \<open>fsym = ETH\<close>, \<open>tsym = USD\<close>, \<open>limit = 1729\<close>, whatever the network answers. When the
  answer is a JSON object whose \<open>Data.Data\<close> is an array of objects, each with an integer
  \<open>time\<close> and numbers under \<open>close\<close>, \<open>open\<close>, \<open>high\<close>, \<open>low\<close> and \<open>volumeto\<close>, the result
  is the table of these rows in the order of the array, with the columns \<open>time\<close>, \<open>close\<close>,
  \<open>open\<close>, \<open>high\<close>, \<open>low\<close>, \<open>volumeto\<close> (the sixth column keeps the API's name
  \<open>volumeto\<close>; no column is called \<open>volume\<close>), and each epoch second \<open>t\<close> has become the
  timestamp of the instant \<open>t\<close> seconds after the epoch.
\<close>

theorem fetch_data_table:
  "fst (fetch_data net issued) =
     issued @ [\<lparr>url = ''https://min-api.cryptocompare.com/data/v2/histoday'',
                params = [(''fsym'', PStr ''ETH''), (''tsym'', PStr ''USD''),
                          (''limit'', PInt 1729)]\<rparr>] \<and>
   frame_columns = [''time'', ''close'', ''open'', ''high'', ''low'', ''volumeto''] \<and>
   (net fetch_request = Inr resp \<and>
    body resp = Some (JObj outer) \<and>
    dict_get outer ''Data'' = Some (JObj inner) \<and>
    dict_get inner ''Data'' = Some (JArr items) \<and>
    list_all2 (\<lambda>item b. \<exists>kvs. item = JObj kvs \<and>
        dict_get kvs ''time'' = Some (JInt (time b)) \<and>
        number_cell (dict_get kvs ''close'') = Some (close b) \<and>
        number_cell (dict_get kvs ''open'') = Some (open' b) \<and>
        number_cell (dict_get kvs ''high'') = Some (high b) \<and>
        number_cell (dict_get kvs ''low'') = Some (low b) \<and>
        number_cell (dict_get kvs ''volumeto'') = Some (volumeto b)) items bs
    \<longrightarrow> snd (fetch_data net issued) =
          Inr (map (\<lambda>b. b\<lparr>time := time b * 1000000000\<rparr>) (bs :: bar list)))"
proof (intro conjI impI)
  show "fst (fetch_data net issued) =
     issued @ [\<lparr>url = ''https://min-api.cryptocompare.com/data/v2/histoday'',
                params = [(''fsym'', PStr ''ETH''), (''tsym'', PStr ''USD''),
                          (''limit'', PInt 1729)]\<rparr>]"
    by (simp add: fetch_data_issued fetch_request_def)
next
  show "frame_columns = [''time'', ''close'', ''open'', ''high'', ''low'', ''volumeto'']"
    by (simp add: frame_columns_def)
next
  assume a: "net fetch_request = Inr resp \<and>
    body resp = Some (JObj outer) \<and>
    dict_get outer ''Data'' = Some (JObj inner) \<and>
    dict_get inner ''Data'' = Some (JArr items) \<and>
    list_all2 (\<lambda>item b. \<exists>kvs. item = JObj kvs \<and>
        dict_get kvs ''time'' = Some (JInt (time b)) \<and>
        number_cell (dict_get kvs ''close'') = Some (close b) \<and>
        number_cell (dict_get kvs ''open'') = Some (open' b) \<and>
        number_cell (dict_get kvs ''high'') = Some (high b) \<and>
        number_cell (dict_get kvs ''low'') = Some (low b) \<and>
        number_cell (dict_get kvs ''volumeto'') = Some (volumeto b)) items bs"
  show "snd (fetch_data net issued) =
          Inr (map (\<lambda>b. b\<lparr>time := time b * 1000000000\<rparr>) bs)"
    using a by (intro fetch_data_rows [of net resp outer inner items bs issued]) simp_all
qed

text \<open>
  An answer shaped as the endpoint's, with two bars and fields the script does not use:
  the table has the two rows, in order, with day 0 and day 1 as timestamps.
\<close>

theorem fetch_data_table_witness:
  "snd (fetch_data
     (\<lambda>request. Inr \<lparr>status_code = 200, body = Some (JObj [(''Response'', JStr ''Success''),
        (''Data'', JObj [(''Aggregated'', JBool False), (''Data'',
        JArr [JObj [(''time'', JInt 0), (''high'', JFloat 11), (''low'', JFloat 8),
                    (''open'', JFloat 9), (''volumefrom'', JFloat 3), (''volumeto'', JInt 5),
                    (''close'', JFloat 10)],
              JObj [(''time'', JInt 86400), (''high'', JFloat 13), (''low'', JFloat 9),
                    (''open'', JFloat 10), (''volumefrom'', JFloat 4), (''volumeto'', JFloat 6),
                    (''close'', JFloat 12)]])])])\<rparr>)
     []) =
   Inr [\<lparr>time = 0, close = 10, open' = 9, high = 11, low = 8, volumeto = 5\<rparr>,
        \<lparr>time = 86400000000000, close = 12, open' = 10, high = 13, low = 9, volumeto = 6\<rparr>]"
  using fetch_data_table [of
     "(\<lambda>request. Inr \<lparr>status_code = 200, body = Some (JObj [(''Response'', JStr ''Success''),
        (''Data'', JObj [(''Aggregated'', JBool False), (''Data'',
        JArr [JObj [(''time'', JInt 0), (''high'', JFloat 11), (''low'', JFloat 8),
                    (''open'', JFloat 9), (''volumefrom'', JFloat 3), (''volumeto'', JInt 5),
                    (''close'', JFloat 10)],
              JObj [(''time'', JInt 86400), (''high'', JFloat 13), (''low'', JFloat 9),
                    (''open'', JFloat 10), (''volumefrom'', JFloat 4), (''volumeto'', JFloat 6),
                    (''close'', JFloat 12)]])])])\<rparr>)"
     "[]"
     "\<lparr>status_code = 200, body = Some (JObj [(''Response'', JStr ''Success''),
        (''Data'', JObj [(''Aggregated'', JBool False), (''Data'',
        JArr [JObj [(''time'', JInt 0), (''high'', JFloat 11), (''low'', JFloat 8),
                    (''open'', JFloat 9), (''volumefrom'', JFloat 3), (''volumeto'', JInt 5),
                    (''close'', JFloat 10)],
              JObj [(''time'', JInt 86400), (''high'', JFloat 13), (''low'', JFloat 9),
                    (''open'', JFloat 10), (''volumefrom'', JFloat 4), (''volumeto'', JFloat 6),
                    (''close'', JFloat 12)]])])])\<rparr>"
     "[(''Response'', JStr ''Success''),
        (''Data'', JObj [(''Aggregated'', JBool False), (''Data'',
        JArr [JObj [(''time'', JInt 0), (''high'', JFloat 11), (''low'', JFloat 8),
                    (''open'', JFloat 9), (''volumefrom'', JFloat 3), (''volumeto'', JInt 5),
                    (''close'', JFloat 10)],
              JObj [(''time'', JInt 86400), (''high'', JFloat 13), (''low'', JFloat 9),
                    (''open'', JFloat 10), (''volumefrom'', JFloat 4), (''volumeto'', JFloat 6),
                    (''close'', JFloat 12)]])])]"
     "[(''Aggregated'', JBool False), (''Data'',
        JArr [JObj [(''time'', JInt 0), (''high'', JFloat 11), (''low'', JFloat 8),
                    (''open'', JFloat 9), (''volumefrom'', JFloat 3), (''volumeto'', JInt 5),
                    (''close'', JFloat 10)],
              JObj [(''time'', JInt 86400), (''high'', JFloat 13), (''low'', JFloat 9),
                    (''open'', JFloat 10), (''volumefrom'', JFloat 4), (''volumeto'', JFloat 6),
                    (''close'', JFloat 12)]])]"
     "[JObj [(''time'', JInt 0), (''high'', JFloat 11), (''low'', JFloat 8),
                    (''open'', JFloat 9), (''volumefrom'', JFloat 3), (''volumeto'', JInt 5),
                    (''close'', JFloat 10)],
              JObj [(''time'', JInt 86400), (''high'', JFloat 13), (''low'', JFloat 9),
                    (''open'', JFloat 10), (''volumefrom'', JFloat 4), (''volumeto'', JFloat 6),
                    (''close'', JFloat 12)]]"
     "[\<lparr>time = 0, close = 10, open' = 9, high = 11, low = 8, volumeto = 5\<rparr>,
       \<lparr>time = 86400, close = 12, open' = 10, high = 13, low = 9, volumeto = 6\<rparr>]"]
  by (simp add: dict_get_def number_cell_def)

text \<open>
  The claim as the specification states it names the columns \<open>time\<close>, \<open>close\<close>, \<open>open\<close>,
  \<open>high\<close>, \<open>low\<close>, \<open>volume\<close>: that is not the set of columns of the table.
\<close>

theorem frame_columns_counterexample:
  "set frame_columns \<noteq> {''time'', ''close'', ''open'', ''high'', ''low'', ''volume''}"
proof -
  have "''volumeto'' \<in> set frame_columns"
    by (simp add: frame_columns_def)
  moreover have "''volumeto'' \<notin> {''time'', ''close'', ''open'', ''high'', ''low'', ''volume''}"
    by simp
  ultimately show ?thesis
    by metis
qed

section \<open>A failed fetch ends the script\<close>

text \<open>
  Claim C7. If the HTTP call raises, or the decoded body has no \<open>Data.Data\<close> path (it is
  not an object with a key \<open>Data\<close> whose value is an object with a key \<open>Data\<close>), then
  \<open>fetch_data\<close> fails (in the second case with KeyError or TypeError) and the whole script
  ends with that same failure after its single request: nothing catches it, nothing is
  retried, and the library is never reached, whatever it would have done. A body that is
  not JSON at all ends the script in the same way.
\<close>

theorem fetch_failure_propagates:
  "(net fetch_request = Inl e \<longrightarrow>
      snd (fetch_data net []) = Inl e \<and> script net lib = ([fetch_request], Inl e)) \<and>
   (net fetch_request = Inr resp \<and> body resp = Some j \<and>
    \<not> (\<exists>outer inner v. j = JObj outer \<and> dict_get outer ''Data'' = Some (JObj inner) \<and>
           dict_get inner ''Data'' = Some v)
    \<longrightarrow> (\<exists>e'. (e' = KeyError ''Data'' \<or> e' = TypeError) \<and>
           snd (fetch_data net []) = Inl e' \<and>
           script net lib = ([fetch_request], Inl e'))) \<and>
   (net fetch_request = Inr resp \<and> body resp = None \<longrightarrow>
      script net lib = ([fetch_request], Inl JSONDecodeError))"
proof (intro conjI impI)
  assume "net fetch_request = Inr resp \<and> body resp = None"
  then have "snd (fetch_data net []) = Inl JSONDecodeError"
    by (simp add: fetch_data_def response_json_def and_then_def)
  then show "script net lib = ([fetch_request], Inl JSONDecodeError)"
    by (rule script_fetch_failure)
next
  assume "net fetch_request = Inl e"
  then show "snd (fetch_data net []) = Inl e"
    by (simp add: fetch_data_def and_then_def)
  then show "script net lib = ([fetch_request], Inl e)"
    by (rule script_fetch_failure)
next
  assume a: "net fetch_request = Inr resp \<and> body resp = Some j \<and>
    \<not> (\<exists>outer inner v. j = JObj outer \<and> dict_get outer ''Data'' = Some (JObj inner) \<and>
           dict_get inner ''Data'' = Some v)"
  then obtain e' where e': "e' = KeyError ''Data'' \<or> e' = TypeError"
    and p: "and_then (getitem j ''Data'') (\<lambda>d. getitem d ''Data'') = Inl e'"
    using getitem_path_failure [of j] by blast
  from p have "and_then (getitem j ''Data'') (\<lambda>d. and_then (getitem d ''Data'') f) = Inl e'"
    for f :: "json \<Rightarrow> error + bar list"
    by (auto simp: and_then_def split: sum.splits)
  with a have f: "snd (fetch_data net []) = Inl e'"
    by (simp add: fetch_data_def response_json_def and_then_def [of "Inr x" for x])
  then have "script net lib = ([fetch_request], Inl e')"
    by (rule script_fetch_failure)
  with e' f show "\<exists>e'. (e' = KeyError ''Data'' \<or> e' = TypeError) \<and>
           snd (fetch_data net []) = Inl e' \<and>
           script net lib = ([fetch_request], Inl e')"
    by blast
qed

text \<open>
  A network that raises, the endpoint's error answer, whose \<open>Data\<close> is an empty
  object, and an answer that is not JSON: the script ends with the exception of the
  request, with KeyError, and with JSONDecodeError.
\<close>

theorem fetch_failure_propagates_witness:
  "script (\<lambda>request. Inl RequestException) (\<lambda>t v m c. Inl LibraryError) =
     ([fetch_request], Inl RequestException) \<and>
   script (\<lambda>request. Inr \<lparr>status_code = 200,
             body = Some (JObj [(''Response'', JStr ''Error''), (''Data'', JObj [])])\<rparr>)
     (\<lambda>t v m c. Inl LibraryError) = ([fetch_request], Inl (KeyError ''Data'')) \<and>
   script (\<lambda>request. Inr \<lparr>status_code = 502, body = None\<rparr>)
     (\<lambda>t v m c. Inl LibraryError) = ([fetch_request], Inl JSONDecodeError)"
  using
    fetch_failure_propagates [of "\<lambda>request. Inr \<lparr>status_code = 502, body = None\<rparr>"
      RequestException "\<lambda>t v m c. Inl LibraryError" "\<lparr>status_code = 502, body = None\<rparr>"
      JNull]
    fetch_failure_propagates [of "\<lambda>request. Inl RequestException" RequestException
      "\<lambda>t v m c. Inl LibraryError" "\<lparr>status_code = 200, body = None\<rparr>" JNull]
    fetch_failure_propagates [of "\<lambda>request. Inr \<lparr>status_code = 200,
                body = Some (JObj [(''Response'', JStr ''Error''), (''Data'', JObj [])])\<rparr>"
      RequestException "\<lambda>t v m c. Inl LibraryError"
      "\<lparr>status_code = 200,
                body = Some (JObj [(''Response'', JStr ''Error''), (''Data'', JObj [])])\<rparr>"
      "JObj [(''Response'', JStr ''Error''), (''Data'', JObj [])]"]
  by (auto simp: dict_get_def fetch_data_def and_then_def response_json_def)

section \<open>The encoder length bounds\<close>

text \<open>
  Claim C8. The training dataset has \<open>max_encoder_length = 365\<close> and
  \<open>min_encoder_length = 182\<close>, which is its maximum halved by integer floor division.
\<close>

theorem min_encoder_length_half:
  "min_encoder_length (training df) = 182 \<and>
   max_encoder_length (training df) = 365 \<and>
   min_encoder_length (training df) = max_encoder_length (training df) div 2"
  by (simp add: training_def MAX_ENCODER_LENGTH_def)

section \<open>The output size and the quantiles of the model\<close>

text \<open>
  Claim C9. The claim takes \<open>output_size\<close> for the number of quantiles of the loss. In the
  code the model is instantiated with \<open>output_size = 7\<close> while its loss is the quantile
  loss at the three quantiles 0.1, 0.5 and 0.9, whatever the training dataset: the output
  size of the code is not the number of quantiles of its loss.
\<close>

theorem tft_output_size_not_quantile_count:
  "output_size (tft ds) = 7 \<and>
   loss (tft ds) = QuantileLoss [1 / 10, 1 / 2, 9 / 10] \<and>
   int (length (quantiles (loss (tft ds)))) = 3 \<and>
   output_size (tft ds) \<noteq> int (length (quantiles (loss (tft ds))))"
  by (simp add: tft_def)

section \<open>The last known price and the last known date\<close>

text \<open>
  Claim C10. On a table with at least one row, the last known price is the close of the
  last row in table order, and the last known date is the largest timestamp of the table;
  when the rows are in non-decreasing order of time the last row carries that timestamp.
  Preparing the table keeps the order of its \<open>time\<close> and \<open>close\<close> columns. When the
  endpoint answers with an array of bars, the fetched table has these bars in the order of
  the array, so that the last known price is the close of the last bar of the array and
  the last known date is the largest time of the array: they belong to one observation
  when the array is in non-decreasing order of time, and to two different ones when the
  last bar of the array is not its latest. In a run of the script that ends normally the
  printed price is the close of the last bar of the array.
\<close>

theorem last_price_and_last_date:
  "(df \<noteq> [] \<longrightarrow>
      last_known_price df = Inr (close (last df)) \<and>
      last_known_date df = Some (Max (time ` set df))) \<and>
   (df \<noteq> [] \<and> sorted (map time df) \<longrightarrow> last_known_date df = Some (time (last df))) \<and>
   map time (prepare df0) = map time df0 \<and>
   map close (prepare df0) = map close df0 \<and>
   (net fetch_request = Inr resp \<and>
    body resp = Some (JObj outer) \<and>
    dict_get outer ''Data'' = Some (JObj inner) \<and>
    dict_get inner ''Data'' = Some (JArr items) \<and>
    list_all2 (\<lambda>item b. \<exists>kvs. item = JObj kvs \<and>
        dict_get kvs ''time'' = Some (JInt (time b)) \<and>
        number_cell (dict_get kvs ''close'') = Some (close b) \<and>
        number_cell (dict_get kvs ''open'') = Some (open' b) \<and>
        number_cell (dict_get kvs ''high'') = Some (high b) \<and>
        number_cell (dict_get kvs ''low'') = Some (low b) \<and>
        number_cell (dict_get kvs ''volumeto'') = Some (volumeto b)) items bs
    \<longrightarrow>
      snd (fetch_data net []) = Inr (map (\<lambda>b. b\<lparr>time := time b * 1000000000\<rparr>) bs) \<and>
      (bs \<noteq> [] \<longrightarrow>
         last_known_price (prepare (map (\<lambda>b. b\<lparr>time := time b * 1000000000\<rparr>) bs)) = Inr (close (last bs)) \<and>
         last_known_date (prepare (map (\<lambda>b. b\<lparr>time := time b * 1000000000\<rparr>) bs)) = Some (Max (time ` set bs) * 1000000000) \<and>
         time (last (prepare (map (\<lambda>b. b\<lparr>time := time b * 1000000000\<rparr>) bs))) = time (last bs) * 1000000000) \<and>
      (bs \<noteq> [] \<and> sorted (map time bs) \<longrightarrow>
         last_known_date (prepare (map (\<lambda>b. b\<lparr>time := time b * 1000000000\<rparr>) bs)) = Some (time (last (prepare (map (\<lambda>b. b\<lparr>time := time b * 1000000000\<rparr>) bs))))) \<and>
      (bs \<noteq> [] \<and> time (last bs) < Max (time ` set bs) \<longrightarrow>
         last_known_date (prepare (map (\<lambda>b. b\<lparr>time := time b * 1000000000\<rparr>) bs)) \<noteq> Some (time (last (prepare (map (\<lambda>b. b\<lparr>time := time b * 1000000000\<rparr>) bs))))) \<and>
      (script net lib = (issued, Inr rep) \<longrightarrow>
         bs \<noteq> [] \<and> printed_price rep = close (last bs)))"
proof (intro conjI impI)
  assume "df \<noteq> []"
  then show "last_known_price df = Inr (close (last df))"
    by (rule last_known_price_last)
next
  assume "df \<noteq> []"
  then show "last_known_date df = Some (Max (time ` set df))"
    by (rule last_known_date_Max)
next
  assume a: "df \<noteq> [] \<and> sorted (map time df)"
  then have "last (map time df) = Max (set (map time df))"
    by (intro sorted_last_Max) simp_all
  with a show "last_known_date df = Some (time (last df))"
    by (simp add: last_known_date_Max last_map)
next
  show "map time (prepare df0) = map time df0"
    by (simp add: prepare_columns)
next
  show "map close (prepare df0) = map close df0"
    by (simp add: prepare_columns)
next
  assume api: "net fetch_request = Inr resp \<and>
    body resp = Some (JObj outer) \<and>
    dict_get outer ''Data'' = Some (JObj inner) \<and>
    dict_get inner ''Data'' = Some (JArr items) \<and>
    list_all2 (\<lambda>item b. \<exists>kvs. item = JObj kvs \<and>
        dict_get kvs ''time'' = Some (JInt (time b)) \<and>
        number_cell (dict_get kvs ''close'') = Some (close b) \<and>
        number_cell (dict_get kvs ''open'') = Some (open' b) \<and>
        number_cell (dict_get kvs ''high'') = Some (high b) \<and>
        number_cell (dict_get kvs ''low'') = Some (low b) \<and>
        number_cell (dict_get kvs ''volumeto'') = Some (volumeto b)) items bs"
  show f: "snd (fetch_data net []) = Inr (map (\<lambda>b. b\<lparr>time := time b * 1000000000\<rparr>) bs)"
    using api by (intro fetch_data_rows [of net resp outer inner items bs "[]"]) simp_all
  {
    assume "script net lib = (issued, Inr rep)"
    then obtain fetched where "snd (fetch_data net []) = Inr fetched" and "fetched \<noteq> []"
      and "printed_price rep = close (last fetched)"
      using script_report by blast
    with f have "bs \<noteq> [] \<and> printed_price rep = close (last bs)"
      by (auto simp: last_map)
    then show "bs \<noteq> []" and "printed_price rep = close (last bs)"
      by simp_all
  }
  {
    assume ne: "bs \<noteq> []"
    note k = fetched_last_known [OF ne]
    from k show "last_known_price (prepare (map (\<lambda>b. b\<lparr>time := time b * 1000000000\<rparr>) bs)) = Inr (close (last bs))"
      by blast
    from k show "last_known_date (prepare (map (\<lambda>b. b\<lparr>time := time b * 1000000000\<rparr>) bs)) = Some (Max (time ` set bs) * 1000000000)"
      by blast
    from k show "time (last (prepare (map (\<lambda>b. b\<lparr>time := time b * 1000000000\<rparr>) bs))) = time (last bs) * 1000000000"
      by blast
  }
  {
    assume s: "bs \<noteq> [] \<and> sorted (map time bs)"
    then have "last (map time bs) = Max (set (map time bs))"
      by (intro sorted_last_Max) simp_all
    with s have "time (last bs) = Max (time ` set bs)"
      by (simp add: last_map)
    with s fetched_last_known [of bs]
    show "last_known_date (prepare (map (\<lambda>b. b\<lparr>time := time b * 1000000000\<rparr>) bs)) = Some (time (last (prepare (map (\<lambda>b. b\<lparr>time := time b * 1000000000\<rparr>) bs))))"
      by simp
  }
  {
    assume s: "bs \<noteq> [] \<and> time (last bs) < Max (time ` set bs)"
    with fetched_last_known [of bs]
    show "last_known_date (prepare (map (\<lambda>b. b\<lparr>time := time b * 1000000000\<rparr>) bs)) \<noteq> Some (time (last (prepare (map (\<lambda>b. b\<lparr>time := time b * 1000000000\<rparr>) bs))))"
      by simp
  }
qed

text \<open>
  The endpoint answers with day 1 (close 12) before day 0 (close 10): the table keeps that
  order, the last known price is 10, the close of day 0, the last known date is day 1, and
  a run of the script prints 10 beside the dates that follow day 1.
\<close>

theorem last_price_and_last_date_witness:
  "snd (fetch_data
     (\<lambda>request. Inr \<lparr>status_code = 200, body = Some (JObj [(''Data'', JObj [(''Data'', JArr [JObj [(''time'', JInt 86400), (''close'', JFloat 12), (''open'', JFloat 10),
              (''high'', JFloat 13), (''low'', JFloat 9), (''volumeto'', JFloat 6)],
              JObj [(''time'', JInt 0), (''close'', JFloat 10), (''open'', JFloat 9),
              (''high'', JFloat 11), (''low'', JFloat 8), (''volumeto'', JFloat 5)]])])])\<rparr>)
     []) =
   Inr [\<lparr>time = 86400000000000, close = 12, open' = 10, high = 13, low = 9, volumeto = 6\<rparr>,
        \<lparr>time = 0, close = 10, open' = 9, high = 11, low = 8, volumeto = 5\<rparr>] \<and>
   last_known_price (prepare
       [\<lparr>time = 86400000000000, close = 12, open' = 10, high = 13, low = 9, volumeto = 6\<rparr>,
        \<lparr>time = 0, close = 10, open' = 9, high = 11, low = 8, volumeto = 5\<rparr>]) = Inr 10 \<and>
   last_known_date (prepare
       [\<lparr>time = 86400000000000, close = 12, open' = 10, high = 13, low = 9, volumeto = 6\<rparr>,
        \<lparr>time = 0, close = 10, open' = 9, high = 11, low = 8, volumeto = 5\<rparr>]) = Some 86400000000000 \<and>
   time (last (prepare
       [\<lparr>time = 86400000000000, close = 12, open' = 10, high = 13, low = 9, volumeto = 6\<rparr>,
        \<lparr>time = 0, close = 10, open' = 9, high = 11, low = 8, volumeto = 5\<rparr>])) = 0 \<and>
   script
     (\<lambda>request. Inr \<lparr>status_code = 200, body = Some (JObj [(''Data'', JObj [(''Data'', JArr [JObj [(''time'', JInt 86400), (''close'', JFloat 12), (''open'', JFloat 10),
              (''high'', JFloat 13), (''low'', JFloat 9), (''volumeto'', JFloat 6)],
              JObj [(''time'', JInt 0), (''close'', JFloat 10), (''open'', JFloat 9),
              (''high'', JFloat 11), (''low'', JFloat 8), (''volumeto'', JFloat 5)]])])])\<rparr>)
     (\<lambda>t v m c. Inr \<lparr>shape1 = 7, array_rows = [[13, 14, 15, 16, 17, 18, 19]]\<rparr>) =
   ([fetch_request],
    Inr \<lparr>printed_price = 10,
         printed_table =
           [(Some 172800000000000, 13), (Some 259200000000000, 14),
            (Some 345600000000000, 15), (Some 432000000000000, 16),
            (Some 518400000000000, 17), (Some 604800000000000, 18),
            (Some 691200000000000, 19)]\<rparr>)"
proof -
  let ?bs = "[\<lparr>time = 86400, close = 12, open' = 10, high = 13, low = 9, volumeto = 6\<rparr>,
        \<lparr>time = 0, close = 10, open' = 9, high = 11, low = 8, volumeto = 5\<rparr>]"
  have api: "(\<lambda>request. Inr \<lparr>status_code = 200, body = Some (JObj [(''Data'', JObj [(''Data'', JArr [JObj [(''time'', JInt 86400), (''close'', JFloat 12), (''open'', JFloat 10),
              (''high'', JFloat 13), (''low'', JFloat 9), (''volumeto'', JFloat 6)],
              JObj [(''time'', JInt 0), (''close'', JFloat 10), (''open'', JFloat 9),
              (''high'', JFloat 11), (''low'', JFloat 8), (''volumeto'', JFloat 5)]])])])\<rparr>) fetch_request = Inr \<lparr>status_code = 200, body = Some (JObj [(''Data'', JObj [(''Data'', JArr [JObj [(''time'', JInt 86400), (''close'', JFloat 12), (''open'', JFloat 10),
              (''high'', JFloat 13), (''low'', JFloat 9), (''volumeto'', JFloat 6)],
              JObj [(''time'', JInt 0), (''close'', JFloat 10), (''open'', JFloat 9),
              (''high'', JFloat 11), (''low'', JFloat 8), (''volumeto'', JFloat 5)]])])])\<rparr> \<and>
    body \<lparr>status_code = 200, body = Some (JObj [(''Data'', JObj [(''Data'', JArr [JObj [(''time'', JInt 86400), (''close'', JFloat 12), (''open'', JFloat 10),
              (''high'', JFloat 13), (''low'', JFloat 9), (''volumeto'', JFloat 6)],
              JObj [(''time'', JInt 0), (''close'', JFloat 10), (''open'', JFloat 9),
              (''high'', JFloat 11), (''low'', JFloat 8), (''volumeto'', JFloat 5)]])])])\<rparr> = Some (JObj [(''Data'', JObj [(''Data'', JArr [JObj [(''time'', JInt 86400), (''close'', JFloat 12), (''open'', JFloat 10),
              (''high'', JFloat 13), (''low'', JFloat 9), (''volumeto'', JFloat 6)],
              JObj [(''time'', JInt 0), (''close'', JFloat 10), (''open'', JFloat 9),
              (''high'', JFloat 11), (''low'', JFloat 8), (''volumeto'', JFloat 5)]])])]) \<and>
    dict_get [(''Data'', JObj [(''Data'', JArr [JObj [(''time'', JInt 86400), (''close'', JFloat 12), (''open'', JFloat 10),
              (''high'', JFloat 13), (''low'', JFloat 9), (''volumeto'', JFloat 6)],
              JObj [(''time'', JInt 0), (''close'', JFloat 10), (''open'', JFloat 9),
              (''high'', JFloat 11), (''low'', JFloat 8), (''volumeto'', JFloat 5)]])])] ''Data'' = Some (JObj [(''Data'', JArr [JObj [(''time'', JInt 86400), (''close'', JFloat 12), (''open'', JFloat 10),
              (''high'', JFloat 13), (''low'', JFloat 9), (''volumeto'', JFloat 6)],
              JObj [(''time'', JInt 0), (''close'', JFloat 10), (''open'', JFloat 9),
              (''high'', JFloat 11), (''low'', JFloat 8), (''volumeto'', JFloat 5)]])]) \<and>
    dict_get [(''Data'', JArr [JObj [(''time'', JInt 86400), (''close'', JFloat 12), (''open'', JFloat 10),
              (''high'', JFloat 13), (''low'', JFloat 9), (''volumeto'', JFloat 6)],
              JObj [(''time'', JInt 0), (''close'', JFloat 10), (''open'', JFloat 9),
              (''high'', JFloat 11), (''low'', JFloat 8), (''volumeto'', JFloat 5)]])] ''Data'' = Some (JArr [JObj [(''time'', JInt 86400), (''close'', JFloat 12), (''open'', JFloat 10),
              (''high'', JFloat 13), (''low'', JFloat 9), (''volumeto'', JFloat 6)],
              JObj [(''time'', JInt 0), (''close'', JFloat 10), (''open'', JFloat 9),
              (''high'', JFloat 11), (''low'', JFloat 8), (''volumeto'', JFloat 5)]]) \<and>
    list_all2 (\<lambda>item b. \<exists>kvs. item = JObj kvs \<and>
        dict_get kvs ''time'' = Some (JInt (time b)) \<and>
        number_cell (dict_get kvs ''close'') = Some (close b) \<and>
        number_cell (dict_get kvs ''open'') = Some (open' b) \<and>
        number_cell (dict_get kvs ''high'') = Some (high b) \<and>
        number_cell (dict_get kvs ''low'') = Some (low b) \<and>
        number_cell (dict_get kvs ''volumeto'') = Some (volumeto b)) [JObj [(''time'', JInt 86400), (''close'', JFloat 12), (''open'', JFloat 10),
              (''high'', JFloat 13), (''low'', JFloat 9), (''volumeto'', JFloat 6)],
              JObj [(''time'', JInt 0), (''close'', JFloat 10), (''open'', JFloat 9),
              (''high'', JFloat 11), (''low'', JFloat 8), (''volumeto'', JFloat 5)]] ?bs"
    by (simp add: dict_get_def number_cell_def)
  have lt: "?bs \<noteq> [] \<and> time (last ?bs) < Max (time ` set ?bs)"
    by simp
  have ne: "?bs \<noteq> []"
    by simp
  have run: "script
     (\<lambda>request. Inr \<lparr>status_code = 200, body = Some (JObj [(''Data'', JObj [(''Data'', JArr [JObj [(''time'', JInt 86400), (''close'', JFloat 12), (''open'', JFloat 10),
              (''high'', JFloat 13), (''low'', JFloat 9), (''volumeto'', JFloat 6)],
              JObj [(''time'', JInt 0), (''close'', JFloat 10), (''open'', JFloat 9),
              (''high'', JFloat 11), (''low'', JFloat 8), (''volumeto'', JFloat 5)]])])])\<rparr>)
     (\<lambda>t v m c. Inr \<lparr>shape1 = 7, array_rows = [[13, 14, 15, 16, 17, 18, 19]]\<rparr>) =
   ([fetch_request],
    Inr \<lparr>printed_price = 10,
         printed_table =
           [(Some 172800000000000, 13), (Some 259200000000000, 14),
            (Some 345600000000000, 15), (Some 432000000000000, 16),
            (Some 518400000000000, 17), (Some 604800000000000, 18),
            (Some 691200000000000, 19)]\<rparr>)"
    by (simp add: script_def fetch_data_def and_then_def response_json_def dict_get_def
      DataFrame_def frame_row_def frame_columns_def integer_cell_def number_cell_def
      to_datetime_def prepare_def series_min_def dt_days_def first_row_def prediction_df_def
      future_dates_def last_known_date_def series_max_def ts_add_def Timedelta_def
      last_known_price_def Let_def upt_rec)
  note w = last_price_and_last_date [where net = "(\<lambda>request. Inr \<lparr>status_code = 200, body = Some (JObj [(''Data'', JObj [(''Data'', JArr [JObj [(''time'', JInt 86400), (''close'', JFloat 12), (''open'', JFloat 10),
              (''high'', JFloat 13), (''low'', JFloat 9), (''volumeto'', JFloat 6)],
              JObj [(''time'', JInt 0), (''close'', JFloat 10), (''open'', JFloat 9),
              (''high'', JFloat 11), (''low'', JFloat 8), (''volumeto'', JFloat 5)]])])])\<rparr>)" and resp = "\<lparr>status_code = 200, body = Some (JObj [(''Data'', JObj [(''Data'', JArr [JObj [(''time'', JInt 86400), (''close'', JFloat 12), (''open'', JFloat 10),
              (''high'', JFloat 13), (''low'', JFloat 9), (''volumeto'', JFloat 6)],
              JObj [(''time'', JInt 0), (''close'', JFloat 10), (''open'', JFloat 9),
              (''high'', JFloat 11), (''low'', JFloat 8), (''volumeto'', JFloat 5)]])])])\<rparr>"
      and outer = "[(''Data'', JObj [(''Data'', JArr [JObj [(''time'', JInt 86400), (''close'', JFloat 12), (''open'', JFloat 10),
              (''high'', JFloat 13), (''low'', JFloat 9), (''volumeto'', JFloat 6)],
              JObj [(''time'', JInt 0), (''close'', JFloat 10), (''open'', JFloat 9),
              (''high'', JFloat 11), (''low'', JFloat 8), (''volumeto'', JFloat 5)]])])]" and inner = "[(''Data'', JArr [JObj [(''time'', JInt 86400), (''close'', JFloat 12), (''open'', JFloat 10),
              (''high'', JFloat 13), (''low'', JFloat 9), (''volumeto'', JFloat 6)],
              JObj [(''time'', JInt 0), (''close'', JFloat 10), (''open'', JFloat 9),
              (''high'', JFloat 11), (''low'', JFloat 8), (''volumeto'', JFloat 5)]])]" and items = "[JObj [(''time'', JInt 86400), (''close'', JFloat 12), (''open'', JFloat 10),
              (''high'', JFloat 13), (''low'', JFloat 9), (''volumeto'', JFloat 6)],
              JObj [(''time'', JInt 0), (''close'', JFloat 10), (''open'', JFloat 9),
              (''high'', JFloat 11), (''low'', JFloat 8), (''volumeto'', JFloat 5)]]" and bs = ?bs
      and lib = "(\<lambda>t v m c. Inr \<lparr>shape1 = 7, array_rows = [[13, 14, 15, 16, 17, 18, 19]]\<rparr>)" and issued = "[fetch_request]"
      and rep = "\<lparr>printed_price = 10,
         printed_table =
           [(Some 172800000000000, 13), (Some 259200000000000, 14),
            (Some 345600000000000, 15), (Some 432000000000000, 16),
            (Some 518400000000000, 17), (Some 604800000000000, 18),
            (Some 691200000000000, 19)]\<rparr>",
      THEN conjunct2, THEN conjunct2, THEN conjunct2, THEN conjunct2, THEN mp, OF api]
  from w [THEN conjunct1] w [THEN conjunct2, THEN conjunct1, THEN mp, OF ne]
    w [THEN conjunct2, THEN conjunct2, THEN conjunct2, THEN conjunct1, THEN mp, OF lt]
    w [THEN conjunct2, THEN conjunct2, THEN conjunct2, THEN conjunct2, THEN mp, OF run] run
  show ?thesis
    by simp
qed

end
